theory Spec2Isabelle
  imports Main "HOL-Library.Char_ord" "HOL-Library.List_Lexorder" "HOL-Library.Multiset"
begin

section \<open>FormAlchemy forms.py: data model\<close>

text \<open>
  Python objects that are mutated or compared by identity live in a store: a wrapper
  is a reference into it, and two references are the same object iff they are equal.
\<close>

type_synonym ref = nat

text \<open>The SQLAlchemy column behind a wrapper: its identity and the two flags the code reads.\<close>

record column =
  col_id :: nat
  primary_key :: bool
  nullable :: bool

text \<open>\<^verbatim>\<open>wrapper.render_as\<close>: the widget class; only \<^verbatim>\<open>fields.HiddenField\<close> is tested for.\<close>

datatype render_kind = HiddenField | FieldKind string

text \<open>
  The attributes of a \<^verbatim>\<open>fields.AttributeWrapper\<close> that forms.py reads or writes.
  The wrapper is built from the tuple \<^verbatim>\<open>(attr, self.model, self.session)\<close>.
\<close>

record wrapper =
  w_name :: string
  w_column :: column
  w_nullable :: bool
  w_raw_foreign_key :: bool
  w_render_as :: render_kind
  w_model :: nat
  w_session :: "nat option"

type_synonym store = "ref \<Rightarrow> wrapper"

text \<open>A Python value found in \<^verbatim>\<open>self.__dict__\<close> or in a filter list: a wrapper or anything else.\<close>

datatype pyval = Wrapper ref | Other string

text \<open>The value of the \<^verbatim>\<open>focus\<close> option: the singleton True, a column, or any other value.\<close>

datatype focus_val = FocusTrue | FocusColumn column | FocusOther

text \<open>
  A keyword dictionary: every key the code looks up, \<open>None\<close> when the key is absent.
\<close>

record kwargs =
  o_pk :: "bool option"
  o_exclude :: "pyval list option"
  o_include :: "pyval list option"
  o_options :: "pyval list option"
  o_date :: "string option"
  o_time :: "string option"
  o_datetime :: "string option"
  o_make_label :: "bool option"
  o_prettify :: "(string \<Rightarrow> string) option"
  o_alias :: "(string \<rightharpoonup> string) option"
  o_focus :: "focus_val option"
  o_error :: "(column \<rightharpoonup> string) option"
  o_doc :: "(column \<rightharpoonup> string) option"
  o_cls_req :: "string option"
  o_cls_opt :: "string option"
  o_cls_err :: "string option"
  o_span_doc :: "string option"
  o_span_err :: "string option"

definition no_kwargs :: kwargs where
  "no_kwargs = \<lparr> o_pk = None, o_exclude = None, o_include = None, o_options = None,
     o_date = None, o_time = None, o_datetime = None, o_make_label = None,
     o_prettify = None, o_alias = None, o_focus = None, o_error = None, o_doc = None,
     o_cls_req = None, o_cls_opt = None, o_cls_err = None, o_span_doc = None,
     o_span_err = None \<rparr>"

text \<open>\<^verbatim>\<open>d.get(key, default)\<close>\<close>

definition dict_get :: "'a option \<Rightarrow> 'a \<Rightarrow> 'a" where
  "dict_get v d = (case v of None \<Rightarrow> d | Some x \<Rightarrow> x)"

text \<open>
  The FieldSet object: the bound model and session, the two persistent option layers,
  and the rest of \<^verbatim>\<open>self.__dict__\<close> in its iteration order (keys are distinct in a dict).
\<close>

record fieldset =
  fs_model :: nat
  fs_session :: "nat option"
  fs_configured :: kwargs
  fs_model_defaults :: kwargs
  fs_dict :: "(string \<times> pyval) list"

datatype error =
  ConflictingFilter
  | InvalidFilterType string "pyval list"

section \<open>Option resolution\<close>

definition pick :: "'a option \<Rightarrow> 'a option \<Rightarrow> 'a option" where
  "pick hi lo = (case hi of None \<Rightarrow> lo | Some v \<Rightarrow> Some v)"

text \<open>
  Modelled from the spec: \<^verbatim>\<open>new_options\<close>, \<^verbatim>\<open>configure\<close> and \<^verbatim>\<open>reconfigure\<close> are in
  base.py, which is not among the sources. The merge is key-wise and the higher layer
  wins: call-time keywords over the persistent configuration over the model-declared
  defaults. The hard-coded defaults are the second arguments of the \<^verbatim>\<open>get\<close> calls.
\<close>

definition merge_options :: "kwargs \<Rightarrow> kwargs \<Rightarrow> kwargs" where
  "merge_options hi lo = \<lparr>
     o_pk = pick (o_pk hi) (o_pk lo),
     o_exclude = pick (o_exclude hi) (o_exclude lo),
     o_include = pick (o_include hi) (o_include lo),
     o_options = pick (o_options hi) (o_options lo),
     o_date = pick (o_date hi) (o_date lo),
     o_time = pick (o_time hi) (o_time lo),
     o_datetime = pick (o_datetime hi) (o_datetime lo),
     o_make_label = pick (o_make_label hi) (o_make_label lo),
     o_prettify = pick (o_prettify hi) (o_prettify lo),
     o_alias = pick (o_alias hi) (o_alias lo),
     o_focus = pick (o_focus hi) (o_focus lo),
     o_error = pick (o_error hi) (o_error lo),
     o_doc = pick (o_doc hi) (o_doc lo),
     o_cls_req = pick (o_cls_req hi) (o_cls_req lo),
     o_cls_opt = pick (o_cls_opt hi) (o_cls_opt lo),
     o_cls_err = pick (o_cls_err hi) (o_cls_err lo),
     o_span_doc = pick (o_span_doc hi) (o_span_doc lo),
     o_span_err = pick (o_span_err hi) (o_span_err lo) \<rparr>"

definition FieldSet_new_options :: "fieldset \<Rightarrow> kwargs \<Rightarrow> kwargs" where
  "FieldSet_new_options fs kw =
     merge_options kw (merge_options (fs_configured fs) (fs_model_defaults fs))"

section \<open>Attribute selection\<close>

text \<open>
  Modelled from the spec: \<^verbatim>\<open>utils.validate_columns\<close> is in utils.py, which is not among
  the sources. A list passes iff it contains only AttributeWrapper instances; the
  model returns the wrappers of a list that passes and \<open>None\<close> where the helper raises.
\<close>

fun validate_columns :: "pyval list \<Rightarrow> ref list option" where
  "validate_columns [] = Some []"
| "validate_columns (Wrapper r # vs) =
     (case validate_columns vs of None \<Rightarrow> None | Some rs \<Rightarrow> Some (r # rs))"
| "validate_columns (Other s # vs) = None"

text \<open>
  \<^verbatim>\<open>_raw_attrs\<close>: the wrappers among the values of \<^verbatim>\<open>self.__dict__\<close>, then a stable sort
  by name.
\<close>

fun dict_wrappers :: "(string \<times> pyval) list \<Rightarrow> ref list" where
  "dict_wrappers [] = []"
| "dict_wrappers ((k, Wrapper r) # kvs) = r # dict_wrappers kvs"
| "dict_wrappers ((k, Other s) # kvs) = dict_wrappers kvs"

definition raw_attrs :: "store \<Rightarrow> fieldset \<Rightarrow> ref list" where
  "raw_attrs st fs = sort_key (\<lambda>r. w_name (st r)) (dict_wrappers (fs_dict fs))"

text \<open>
  The loop at the end of \<^verbatim>\<open>get_attrs\<close>: \<^verbatim>\<open>options_dict.update([(w, w) for w in options])\<close>
  and then each selected wrapper is replaced by the value stored under it, if any.
  Modelled from the spec: the class AttributeWrapper is in fields.py, which is not among
  the sources; wrappers are hashed and compared by identity, in dictionaries and in
  the \<^verbatim>\<open>in\<close> tests on lists alike.
\<close>

fun dict_update :: "(ref \<rightharpoonup> ref) \<Rightarrow> (ref \<times> ref) list \<Rightarrow> (ref \<rightharpoonup> ref)" where
  "dict_update d [] = d"
| "dict_update d ((k, v) # kvs) = dict_update (d(k \<mapsto> v)) kvs"

definition options_dict :: "ref list \<Rightarrow> (ref \<rightharpoonup> ref)" where
  "options_dict options = dict_update Map.empty (map (\<lambda>wrapper. (wrapper, wrapper)) options)"

definition apply_options :: "(ref \<rightharpoonup> ref) \<Rightarrow> ref list \<Rightarrow> ref list" where
  "apply_options d include =
     map (\<lambda>w. case d w of Some v \<Rightarrow> v | None \<Rightarrow> w) include"

text \<open>
  \<^verbatim>\<open>get_attrs(**kwargs)\<close> and \<^verbatim>\<open>get_pks()\<close>. The second calls the first with no keyword,
  and the first calls the second only when \<^verbatim>\<open>pk\<close> is false.
\<close>

function get_attrs :: "store \<Rightarrow> fieldset \<Rightarrow> kwargs \<Rightarrow> error + ref list"
  and get_pks :: "store \<Rightarrow> fieldset \<Rightarrow> error + ref list"
where
  "get_attrs st fs kw =
     (let pk = dict_get (o_pk kw) True;
          exclude = dict_get (o_exclude kw) [];
          include = dict_get (o_include kw) [];
          options = dict_get (o_options kw) []
      in if include \<noteq> [] \<and> exclude \<noteq> [] then Inl ConflictingFilter
         else case validate_columns include of
           None \<Rightarrow> Inl (InvalidFilterType ''include'' include)
         | Some inc \<Rightarrow>
         (case validate_columns exclude of
           None \<Rightarrow> Inl (InvalidFilterType ''exclude'' exclude)
         | Some exc \<Rightarrow>
         (case validate_columns options of
           None \<Rightarrow> Inl (InvalidFilterType ''options'' options)
         | Some opts \<Rightarrow>
           if inc = [] then
             (case (if \<not> pk then get_pks st fs else Inr []) of
                Inl e \<Rightarrow> Inl e
              | Inr pks \<Rightarrow>
                 let ignore = exc @ pks
                       @ filter (\<lambda>w. w_raw_foreign_key (st w)) (raw_attrs st fs)
                 in Inr (apply_options (options_dict opts)
                          (filter (\<lambda>attr. attr \<notin> set ignore) (raw_attrs st fs))))
           else Inr (apply_options (options_dict opts) inc))))"
| "get_pks st fs =
     (case get_attrs st fs no_kwargs of
        Inl e \<Rightarrow> Inl e
      | Inr ws \<Rightarrow> Inr (filter (\<lambda>w. primary_key (w_column (st w))) ws))"
  by pat_completeness auto
termination
  by (relation "measure (\<lambda>x. case x of
          Inl (st, fs, kw) \<Rightarrow> (if dict_get (o_pk kw) True then 0 else 2)
        | Inr (st, fs) \<Rightarrow> 1)")
     (auto simp: no_kwargs_def dict_get_def)

declare get_attrs.simps [simp del] get_pks.simps [simp del]

section \<open>Rendering one field\<close>

text \<open>
  The markup primitives forms.py delegates to, taken as parameters:
  \<^verbatim>\<open>wrapper.render()\<close>, \<^verbatim>\<open>fields.Label(column, alias=text)\<close> with its prettify function
  and CSS class rendered, \<^verbatim>\<open>h.content_tag(name, content, class_=cls)\<close>,
  \<^verbatim>\<open>h.javascript_tag(script)\<close> and \<^verbatim>\<open>utils.wrap(start, text, end)\<close>.
\<close>

record collab =
  wrapper_render :: "wrapper \<Rightarrow> string"
  label_render :: "column \<Rightarrow> string \<Rightarrow> (string \<Rightarrow> string) option \<Rightarrow> string \<Rightarrow> string"
  content_tag :: "string \<Rightarrow> string \<Rightarrow> string \<Rightarrow> string"
  javascript_tag :: "string \<Rightarrow> string"
  wrap :: "string \<Rightarrow> string \<Rightarrow> string \<Rightarrow> string"

text \<open>
  The Field object: \<^verbatim>\<open>self.wrapper\<close> is \<open>None\<close> until \<^verbatim>\<open>set_attr\<close> is called, and
  rendering without a wrapper fails on the attribute access.
\<close>

record field =
  f_model :: nat
  f_session :: "nat option"
  f_wrapper :: "ref option"
  f_options :: kwargs
  f_make_label :: bool
  f_focus_rendered :: bool

datatype render_error = AttributeError | FilterError error

text \<open>
  \<^verbatim>\<open>Field.__init__(model, session=None, attr=None, make_label=True)\<close>: the base
  constructor, then the label flag, then \<^verbatim>\<open>self._focus_rendered = False\<close>.
  Modelled from the spec: \<^verbatim>\<open>BaseColumnRender.__init__\<close> is in base.py, which is not among
  the sources; it stores model, session and wrapper and starts with no option set.
\<close>

definition Field_init :: "nat \<Rightarrow> nat option \<Rightarrow> ref option \<Rightarrow> bool \<Rightarrow> field" where
  "Field_init model session attr make_label =
     \<lparr> f_model = model, f_session = session, f_wrapper = attr, f_options = no_kwargs,
       f_make_label = make_label, f_focus_rendered = False \<rparr>"

text \<open>
  Modelled from the spec: \<^verbatim>\<open>reconfigure\<close>, \<^verbatim>\<open>set_attr\<close> and the Field's \<^verbatim>\<open>new_options\<close>
  are in base.py, which is not among the sources. \<^verbatim>\<open>reconfigure\<close> replaces the
  persistent options of the renderer, \<^verbatim>\<open>set_attr\<close> sets the wrapper to render, and
  \<^verbatim>\<open>new_options\<close> merges the call-time keywords over the persistent options.
\<close>

definition reconfigure :: "kwargs \<Rightarrow> field \<Rightarrow> field" where
  "reconfigure opts fld = fld\<lparr>f_options := opts\<rparr>"

definition set_attr :: "ref \<Rightarrow> field \<Rightarrow> field" where
  "set_attr attr fld = fld\<lparr>f_wrapper := Some attr\<rparr>"

definition Field_new_options :: "field \<Rightarrow> kwargs \<Rightarrow> kwargs" where
  "Field_new_options fld kw = merge_options kw (f_options fld)"

definition NL :: string where
  "NL = [CHR 0x0A]"

text \<open>\<^verbatim>\<open>if field.startswith("\n"): field = field[1:]\<close>\<close>

fun strip_leading_newline :: "string \<Rightarrow> string" where
  "strip_leading_newline [] = []"
| "strip_leading_newline (c # cs) = (if c = CHR 0x0A then cs else c # cs)"

text \<open>\<^verbatim>\<open>'document.getElementById("%s").focus();' % name\<close>\<close>

definition focus_script :: "string \<Rightarrow> string" where
  "focus_script name =
     ''document.getElementById('' @ [CHR 0x22] @ name @ [CHR 0x22] @ '').focus();''"

text \<open>
  \<^verbatim>\<open>focus == self.wrapper.column\<close>: the column is a SQLAlchemy Column (lines 9 and 10
  import from the attribute module of the 0.4 line), and \<^verbatim>\<open>==\<close> on a Column does not
  compare: for any left operand, a column, a boolean or \<open>None\<close> alike, Python ends in
  the Column's own method, which builds the clause of a SQL comparison and returns it.
  The clause object defines no truth value, so the \<^verbatim>\<open>or\<close> of line 237 takes it as true.
\<close>

datatype clause = BinaryExpression focus_val column

definition Column_eq :: "focus_val \<Rightarrow> column \<Rightarrow> clause" where
  "Column_eq focus col = BinaryExpression focus col"

fun truth_value :: "clause \<Rightarrow> bool" where
  "truth_value (BinaryExpression left right) = True"

text \<open>
  \<^verbatim>\<open>Field.render(**options)\<close>: the markup and the renderer afterwards. \<^verbatim>\<open>focus is True\<close>
  holds for the singleton only.
\<close>

definition Field_render ::
  "collab \<Rightarrow> store \<Rightarrow> field \<Rightarrow> kwargs \<Rightarrow> (render_error + string) \<times> field" where
  "Field_render c st self options =
     (let opts = Field_new_options self options;
          date_f = dict_get (o_date opts) ''%Y-%m-%d'';
          time_f = dict_get (o_time opts) ''%H:%M:%S'';
          datetime_f = dict_get (o_datetime opts) (date_f @ '' '' @ time_f);
          make_label = dict_get (o_make_label opts) (f_make_label self);
          pretty_func = o_prettify opts;
          alias = dict_get (o_alias opts) Map.empty;
          focus = dict_get (o_focus opts) FocusTrue;
          errors = dict_get (o_error opts) Map.empty;
          docs = dict_get (o_doc opts) Map.empty;
          cls_fld_req = dict_get (o_cls_req opts) ''field_req'';
          cls_fld_opt = dict_get (o_cls_opt opts) ''field_opt'';
          cls_fld_err = dict_get (o_cls_err opts) ''field_err'';
          cls_span_doc = dict_get (o_span_doc opts) ''span_doc'';
          cls_span_err = dict_get (o_span_err opts) ''span_err''
      in case f_wrapper self of
           None \<Rightarrow> (Inl AttributeError, self)
         | Some r \<Rightarrow>
           let w = st r in
           if w_render_as w = HiddenField then (Inr (wrapper_render c w), self)
           else
             let field0 = [];
                 field1 = (if make_label
                   then field0 @ label_render c (w_column w)
                          (dict_get (alias (w_name w)) (w_name w)) pretty_func
                          (if w_nullable w then cls_fld_opt else cls_fld_req)
                   else field0);
                 field2 = field1 @ NL @ wrapper_render c w;
                 field3 = (case errors (w_column w) of
                     Some msg \<Rightarrow> field2 @ NL @ content_tag c ''span'' msg cls_span_err
                   | None \<Rightarrow> field2);
                 field4 = (case docs (w_column w) of
                     Some txt \<Rightarrow> field3 @ NL @ content_tag c ''span'' txt cls_span_doc
                   | None \<Rightarrow> field3);
                 field5 = strip_leading_newline field4;
                 field6 = (if f_make_label self
                   then wrap c ''<div>'' field5 ''</div>'' else field5)
             in if (truth_value (Column_eq focus (w_column w)) \<or> focus = FocusTrue)
                    \<and> \<not> f_focus_rendered self
                then (Inr (field6 @ NL @ javascript_tag c (focus_script (w_name w))),
                      self\<lparr>f_focus_rendered := True\<rparr>)
                else (Inr field6, self))"

section \<open>Rendering the form\<close>

text \<open>\<^verbatim>\<open>"\n".join(html)\<close>\<close>

fun join_lines :: "string list \<Rightarrow> string" where
  "join_lines [] = []"
| "join_lines [x] = x"
| "join_lines (x # y # ys) = x @ NL @ join_lines (y # ys)"

text \<open>
  The loop of \<^verbatim>\<open>FieldSet.render\<close>: one renderer is reused for every attribute; an
  exception leaves the loop and nothing is returned.
\<close>

fun render_loop ::
  "collab \<Rightarrow> store \<Rightarrow> field \<Rightarrow> ref list \<Rightarrow> string list \<Rightarrow> (render_error + string list) \<times> field" where
  "render_loop c st field_render [] html = (Inr html, field_render)"
| "render_loop c st field_render (attr # attrs) html =
     (case Field_render c st (set_attr attr field_render) no_kwargs of
        (Inl e, fr) \<Rightarrow> (Inl e, fr)
      | (Inr fld, fr) \<Rightarrow> render_loop c st fr attrs (html @ [fld]))"

definition FieldSet_render :: "collab \<Rightarrow> store \<Rightarrow> fieldset \<Rightarrow> kwargs \<Rightarrow> render_error + string" where
  "FieldSet_render c st self options =
     (let opts = FieldSet_new_options self options
      in case get_attrs st self opts of
           Inl e \<Rightarrow> Inl (FilterError e)
         | Inr attrs \<Rightarrow>
           (let field_render =
                  reconfigure opts (Field_init (fs_model self) (fs_session self) None True)
            in (case fst (render_loop c st field_render attrs []) of
                  Inl e \<Rightarrow> Inl e
                | Inr html \<Rightarrow> Inr (join_lines html))))"

text \<open>
  The same call with the objects it creates. The world holds the wrappers and every
  Field object created so far, in creation order; an address is a position in that
  list. \<^verbatim>\<open>Field(self.model, self.session)\<close> creates a new object, and \<^verbatim>\<open>reconfigure\<close>,
  \<^verbatim>\<open>set_attr\<close> and \<^verbatim>\<open>render\<close> read and write the object at its address. The objects of
  earlier calls stay in the world as those calls left them.
\<close>

record world =
  wrappers :: store
  renderers :: "field list"

definition new_Field :: "world \<Rightarrow> nat \<Rightarrow> nat option \<Rightarrow> ref option \<Rightarrow> bool \<Rightarrow> nat \<times> world" where
  "new_Field wd model session attr make_label =
     (length (renderers wd),
      wd\<lparr>renderers := renderers wd @ [Field_init model session attr make_label]\<rparr>)"

fun render_loop_in ::
  "collab \<Rightarrow> nat \<Rightarrow> ref list \<Rightarrow> string list \<Rightarrow> world \<Rightarrow> (render_error + string list) \<times> world" where
  "render_loop_in c field_render [] html wd = (Inr html, wd)"
| "render_loop_in c field_render (attr # attrs) html wd =
     (let wd1 = wd\<lparr>renderers :=
                  (renderers wd)[field_render := set_attr attr (renderers wd ! field_render)]\<rparr>
      in case Field_render c (wrappers wd1) (renderers wd1 ! field_render) no_kwargs of
           (Inl e, fr) \<Rightarrow>
             (Inl e, wd1\<lparr>renderers := (renderers wd1)[field_render := fr]\<rparr>)
         | (Inr fld, fr) \<Rightarrow>
             render_loop_in c field_render attrs (html @ [fld])
               (wd1\<lparr>renderers := (renderers wd1)[field_render := fr]\<rparr>))"

definition FieldSet_render_in ::
  "collab \<Rightarrow> fieldset \<Rightarrow> kwargs \<Rightarrow> world \<Rightarrow> (render_error + string) \<times> world" where
  "FieldSet_render_in c self options wd =
     (let opts = FieldSet_new_options self options
      in case get_attrs (wrappers wd) self opts of
           Inl e \<Rightarrow> (Inl (FilterError e), wd)
         | Inr attrs \<Rightarrow>
           (let (field_render, wd1) = new_Field wd (fs_model self) (fs_session self) None True;
                wd2 = wd1\<lparr>renderers := (renderers wd1)
                         [field_render := reconfigure opts (renderers wd1 ! field_render)]\<rparr>
            in (case render_loop_in c field_render attrs [] wd2 of
                  (Inl e, wd3) \<Rightarrow> (Inl e, wd3)
                | (Inr html, wd3) \<Rightarrow> (Inr (join_lines html), wd3))))"

text \<open>
  \<^verbatim>\<open>FieldSet.bind(model, session)\<close>: the call of the base class, then the loop that
  assigns \<^verbatim>\<open>attr.model = model\<close> on every wrapper of \<^verbatim>\<open>_raw_attrs()\<close>.
  Modelled from the spec: \<^verbatim>\<open>BaseModelRender.bind\<close> is in base.py, which is not among
  the sources; it stores the model and the session on the form.
\<close>

fun bind_loop :: "nat \<Rightarrow> ref list \<Rightarrow> store \<Rightarrow> store" where
  "bind_loop model [] st = st"
| "bind_loop model (attr # attrs) st =
     bind_loop model attrs (st(attr := (st attr)\<lparr>w_model := model\<rparr>))"

definition bind :: "store \<Rightarrow> fieldset \<Rightarrow> nat \<Rightarrow> nat option \<Rightarrow> store \<times> fieldset" where
  "bind st self model session =
     (let self' = self\<lparr>fs_model := model, fs_session := session\<rparr>
      in (bind_loop model (raw_attrs st self') st, self'))"

section \<open>Vocabulary of the properties\<close>

text \<open>\<^verbatim>\<open>isinstance(v, AttributeWrapper)\<close>\<close>

fun is_wrapper :: "pyval \<Rightarrow> bool" where
  "is_wrapper (Wrapper r) = True"
| "is_wrapper (Other s) = False"

text \<open>
  The test of \<^verbatim>\<open>Field.render\<close> on the focus option, without the once-only flag:
  \<^verbatim>\<open>focus == self.wrapper.column or focus is True\<close>.
\<close>

definition focus_matches :: "focus_val \<Rightarrow> wrapper \<Rightarrow> bool" where
  "focus_matches focus w \<longleftrightarrow>
     truth_value (Column_eq focus (w_column w)) \<or> focus = FocusTrue"

text \<open>
  The markup \<^verbatim>\<open>Field.render\<close> has built when it reaches the focus step (lines 202 to
  234): the input fragment alone for a hidden wrapper, otherwise label, input, error
  span and doc span, wrapped in a div when the instance flag is set. \<open>opts\<close> are the
  merged options, \<open>instance_make_label\<close> is \<^verbatim>\<open>self.get_make_label()\<close>.
\<close>

definition field_markup :: "collab \<Rightarrow> kwargs \<Rightarrow> bool \<Rightarrow> wrapper \<Rightarrow> string" where
  "field_markup c opts instance_make_label w =
     (if w_render_as w = HiddenField then wrapper_render c w
      else
        let label = (if dict_get (o_make_label opts) instance_make_label
               then label_render c (w_column w)
                      (dict_get (dict_get (o_alias opts) Map.empty (w_name w)) (w_name w))
                      (o_prettify opts)
                      (if w_nullable w then dict_get (o_cls_opt opts) ''field_opt''
                       else dict_get (o_cls_req opts) ''field_req'')
               else []);
            error_span = (case dict_get (o_error opts) Map.empty (w_column w) of
                 None \<Rightarrow> []
               | Some msg \<Rightarrow> NL @ content_tag c ''span'' msg (dict_get (o_span_err opts) ''span_err''));
            doc_span = (case dict_get (o_doc opts) Map.empty (w_column w) of
                 None \<Rightarrow> []
               | Some txt \<Rightarrow> NL @ content_tag c ''span'' txt (dict_get (o_span_doc opts) ''span_doc''));
            body = strip_leading_newline (label @ NL @ wrapper_render c w @ error_span @ doc_span)
        in if instance_make_label then wrap c ''<div>'' body ''</div>'' else body)"

text \<open>
  A wrapper the focus step can serve: it is not hidden, so \<^verbatim>\<open>render\<close> does not return
  early, and the test on the focus option holds.
\<close>

definition takes_focus :: "kwargs \<Rightarrow> wrapper \<Rightarrow> bool" where
  "takes_focus opts w \<longleftrightarrow>
     w_render_as w \<noteq> HiddenField \<and> focus_matches (dict_get (o_focus opts) FocusTrue) w"

text \<open>What the focus step appends to the markup of a field.\<close>

definition focus_tail :: "collab \<Rightarrow> wrapper \<Rightarrow> string" where
  "focus_tail c w = NL @ javascript_tag c (focus_script (w_name w))"

section \<open>A concrete form\<close>

text \<open>
  The model of the specification's example: \<open>id\<close> (primary key), \<open>name\<close> (not null),
  \<open>bio\<close> (nullable), \<open>secret_id\<close> (raw foreign key); a hidden \<open>token\<close> wrapper besides.
  The dictionary of the form also holds a value that is not a wrapper.
\<close>

definition mk_wrapper ::
  "string \<Rightarrow> nat \<Rightarrow> bool \<Rightarrow> bool \<Rightarrow> bool \<Rightarrow> render_kind \<Rightarrow> wrapper" where
  "mk_wrapper name cid pkey null rawfk kind =
     \<lparr> w_name = name,
       w_column = \<lparr> col_id = cid, primary_key = pkey, nullable = null \<rparr>,
       w_nullable = null, w_raw_foreign_key = rawfk, w_render_as = kind,
       w_model = 0, w_session = Some 5 \<rparr>"

definition ex_store :: store where
  "ex_store r =
     (if r = 0 then mk_wrapper ''id'' 10 True False False (FieldKind ''integer'')
      else if r = 1 then mk_wrapper ''name'' 11 False False False (FieldKind ''text'')
      else if r = 2 then mk_wrapper ''bio'' 12 False True False (FieldKind ''text'')
      else if r = 3 then mk_wrapper ''secret_id'' 13 False True True (FieldKind ''integer'')
      else mk_wrapper ''token'' 14 False True False HiddenField)"

definition ex_fieldset :: fieldset where
  "ex_fieldset = \<lparr> fs_model = 0, fs_session = Some 5, fs_configured = no_kwargs,
     fs_model_defaults = no_kwargs,
     fs_dict = [(''name'', Wrapper 1), (''secret_id'', Wrapper 3),
                (''_options'', Other ''{}''), (''id'', Wrapper 0), (''bio'', Wrapper 2)] \<rparr>"

text \<open>Markup primitives for the concrete form.\<close>

definition ex_collab :: collab where
  "ex_collab = \<lparr>
     wrapper_render = (\<lambda>w. ''<input name='' @ w_name w @ ''>''),
     label_render = (\<lambda>col text pretty cls.
        ''<label class='' @ cls @ ''>''
          @ (case pretty of None \<Rightarrow> text | Some f \<Rightarrow> f text) @ ''</label>''),
     content_tag = (\<lambda>name content cls.
        ''<'' @ name @ '' class='' @ cls @ ''>'' @ content @ ''</'' @ name @ ''>''),
     javascript_tag = (\<lambda>script. ''<script>'' @ script @ ''</script>''),
     wrap = (\<lambda>start text end. start @ NL @ text @ NL @ end) \<rparr>"

text \<open>Keyword sets used below.\<close>

definition ex_include_kwargs :: kwargs where
  "ex_include_kwargs = no_kwargs\<lparr>o_pk := Some False, o_include := Some [Wrapper 3, Wrapper 0]\<rparr>"


definition ex_conflict_kwargs :: kwargs where
  "ex_conflict_kwargs =
     no_kwargs\<lparr>o_include := Some [Wrapper 1], o_exclude := Some [Wrapper 2]\<rparr>"

definition ex_untyped_conflict_kwargs :: kwargs where
  "ex_untyped_conflict_kwargs =
     no_kwargs\<lparr>o_include := Some [Other ''name''], o_exclude := Some [Wrapper 2]\<rparr>"

definition ex_untyped_kwargs :: kwargs where
  "ex_untyped_kwargs =
     no_kwargs\<lparr>o_exclude := Some [Wrapper 2, Other ''name''], o_options := Some [Other ''x'']\<rparr>"

definition ex_nolabel_kwargs :: kwargs where
  "ex_nolabel_kwargs = no_kwargs\<lparr>o_make_label := Some False, o_focus := Some FocusOther\<rparr>"

definition ex_spans_kwargs :: kwargs where
  "ex_spans_kwargs = no_kwargs\<lparr>
     o_focus := Some (FocusColumn (w_column (ex_store 4))),
     o_error := Some [w_column (ex_store 1) \<mapsto> ''required'', w_column (ex_store 4) \<mapsto> ''bad token''],
     o_doc := Some [w_column (ex_store 2) \<mapsto> ''about you'', w_column (ex_store 4) \<mapsto> ''internal'']\<rparr>"

definition ex_focus_name_kwargs :: kwargs where
  "ex_focus_name_kwargs = no_kwargs\<lparr>o_focus := Some (FocusColumn (w_column (ex_store 1)))\<rparr>"

definition ex_nofocus_kwargs :: kwargs where
  "ex_nofocus_kwargs = no_kwargs\<lparr>o_focus := Some FocusOther\<rparr>"

definition ex_world :: world where
  "ex_world = \<lparr> wrappers = ex_store, renderers = [] \<rparr>"

definition ex_label_kwargs :: kwargs where
  "ex_label_kwargs = no_kwargs\<lparr>o_make_label := Some True, o_focus := Some FocusOther\<rparr>"

text \<open>Field renderers for the concrete form.\<close>

definition ex_hidden_field :: field where
  "ex_hidden_field = set_attr 4 (reconfigure ex_spans_kwargs (Field_init 0 (Some 5) None True))"

definition ex_name_field :: field where
  "ex_name_field = set_attr 1 (Field_init 0 (Some 5) None True)"

definition ex_unlabelled_name_field :: field where
  "ex_unlabelled_name_field = set_attr 1 (Field_init 0 (Some 5) None False)"

section \<open>Facts about the selection\<close>

lemma validate_columns_map: "validate_columns (map Wrapper rs) = Some rs"
  by (induction rs) auto

lemma validate_columns_SomeD: "validate_columns vs = Some rs \<Longrightarrow> vs = map Wrapper rs"
  by (induction vs arbitrary: rs rule: validate_columns.induct) (auto split: option.splits)

lemma validate_columns_None: "validate_columns vs = None \<longleftrightarrow> \<not> list_all is_wrapper vs"
  by (induction vs rule: validate_columns.induct) (auto split: option.splits)

text \<open>
  Every value \<^verbatim>\<open>options_dict\<close> stores is its own key, so the substitution loop returns
  the very wrappers it is given.
\<close>

lemma dict_update_id:
  "(\<And>k v. d k = Some v \<Longrightarrow> v = k) \<Longrightarrow>
   dict_update d (map (\<lambda>w. (w, w)) options) k = Some v \<Longrightarrow> v = k"
proof (induction options arbitrary: d)
  case Nil
  then show ?case by simp
next
  case (Cons a options)
  have "\<And>k' v'. (d(a \<mapsto> a)) k' = Some v' \<Longrightarrow> v' = k'"
    using Cons.prems(1) by (auto split: if_splits)
  moreover have "dict_update (d(a \<mapsto> a)) (map (\<lambda>w. (w, w)) options) k = Some v"
    using Cons.prems(2) by (simp del: fun_upd_apply)
  ultimately show ?case by (rule Cons.IH)
qed

lemma options_dict_id: "options_dict options k = Some v \<Longrightarrow> v = k"
  unfolding options_dict_def by (rule dict_update_id[of Map.empty]) auto

lemma apply_options_id: "apply_options (options_dict options) ws = ws"
  unfolding apply_options_def
  by (induction ws) (auto split: option.splits dest: options_dict_id)

lemma get_attrs_no_kwargs:
  "get_attrs st fs no_kwargs =
     Inr (filter (\<lambda>w. \<not> w_raw_foreign_key (st w)) (raw_attrs st fs))"
  by (subst get_attrs.simps)
     (simp add: no_kwargs_def dict_get_def apply_options_id cong: filter_cong)

lemma get_pks_eq:
  "get_pks st fs = Inr (filter (\<lambda>w. primary_key (w_column (st w)))
        (filter (\<lambda>w. \<not> w_raw_foreign_key (st w)) (raw_attrs st fs)))"
  by (subst get_pks.simps) (simp add: get_attrs_no_kwargs)

lemma get_attrs_conflict:
  "dict_get (o_include kw) [] \<noteq> [] \<Longrightarrow> dict_get (o_exclude kw) [] \<noteq> [] \<Longrightarrow>
   get_attrs st fs kw = Inl ConflictingFilter"
  by (subst get_attrs.simps) (simp add: Let_def)

lemma get_attrs_include_ok:
  assumes "dict_get (o_include kw) [] = map Wrapper inc" "inc \<noteq> []"
    "dict_get (o_exclude kw) [] = []"
    "validate_columns (dict_get (o_options kw) []) = Some opts"
  shows "get_attrs st fs kw = Inr inc"
  by (subst get_attrs.simps)
     (simp add: Let_def assms validate_columns_map apply_options_id)

lemma get_attrs_include_result:
  assumes "dict_get (o_include kw) [] \<noteq> []" "get_attrs st fs kw = Inr sel"
  shows "map Wrapper sel = dict_get (o_include kw) []"
proof -
  from assms(2) have "\<not> (dict_get (o_include kw) [] \<noteq> [] \<and> dict_get (o_exclude kw) [] \<noteq> [])"
    using get_attrs_conflict[of kw st fs] by auto
  with assms(1) have e: "dict_get (o_exclude kw) [] = []" by simp
  from assms show ?thesis
    apply (subst (asm) get_attrs.simps)
    apply (simp add: Let_def e split: option.splits)
    apply (auto simp: apply_options_id dest: validate_columns_SomeD)
    done
qed

lemma get_attrs_empty_include:
  assumes "dict_get (o_include kw) [] = []"
    "validate_columns (dict_get (o_exclude kw) []) = Some exc"
    "validate_columns (dict_get (o_options kw) []) = Some opts"
  shows "get_attrs st fs kw = Inr (filter (\<lambda>w. w \<notin> set exc
            \<and> (dict_get (o_pk kw) True \<or> \<not> primary_key (w_column (st w)))
            \<and> \<not> w_raw_foreign_key (st w)) (raw_attrs st fs))"
  apply (subst get_attrs.simps)
  apply (simp add: Let_def assms apply_options_id get_pks_eq)
  apply (auto intro!: filter_cong)
  done

lemma get_attrs_invalid:
  assumes nc: "\<not> (dict_get (o_include kw) [] \<noteq> [] \<and> dict_get (o_exclude kw) [] \<noteq> [])"
    and bad: "\<not> list_all is_wrapper
        (dict_get (o_include kw) [] @ dict_get (o_exclude kw) [] @ dict_get (o_options kw) [])"
  shows "get_attrs st fs kw = Inl
     (if \<not> list_all is_wrapper (dict_get (o_include kw) [])
        then InvalidFilterType ''include'' (dict_get (o_include kw) [])
      else if \<not> list_all is_wrapper (dict_get (o_exclude kw) [])
        then InvalidFilterType ''exclude'' (dict_get (o_exclude kw) [])
      else InvalidFilterType ''options'' (dict_get (o_options kw) []))"
proof -
  let ?i = "dict_get (o_include kw) []"
  let ?e = "dict_get (o_exclude kw) []"
  let ?o = "dict_get (o_options kw) []"
  consider (i) "validate_columns ?i = None"
    | (e) inc where "validate_columns ?i = Some inc" "validate_columns ?e = None"
    | (o) inc exc where "validate_columns ?i = Some inc" "validate_columns ?e = Some exc"
        "validate_columns ?o = None"
    using bad by (cases "validate_columns ?i"; cases "validate_columns ?e"; cases "validate_columns ?o")
       (auto simp: validate_columns_None[symmetric])
  then show ?thesis
  proof cases
    case i
    then show ?thesis using nc
      by (subst get_attrs.simps) (simp add: Let_def validate_columns_None[symmetric])
  next
    case e
    then show ?thesis using nc
      by (subst get_attrs.simps) (simp add: Let_def validate_columns_None[symmetric])
  next
    case o
    then show ?thesis using nc
      by (subst get_attrs.simps) (simp add: Let_def validate_columns_None[symmetric])
  qed
qed



text \<open>
  When the wrappers of a form have distinct names, the sorted list does not depend on
  the iteration order of the dictionary.
\<close>

lemma raw_attrs_order_irrelevant:
  assumes "mset (dict_wrappers (fs_dict fs')) = mset (dict_wrappers (fs_dict fs))"
    and "inj_on (\<lambda>r. w_name (st r)) (set (dict_wrappers (fs_dict fs)))"
  shows "raw_attrs st fs' = raw_attrs st fs"
proof -
  have "set (dict_wrappers (fs_dict fs')) = set (dict_wrappers (fs_dict fs))"
    using assms(1) by (rule mset_eq_setD)
  with assms(2) have inj: "inj_on (\<lambda>r. w_name (st r)) (set (dict_wrappers (fs_dict fs')))"
    by simp
  have "mset (dict_wrappers (fs_dict fs')) = mset (raw_attrs st fs)"
    using assms(1) by (simp add: raw_attrs_def)
  moreover note inj
  moreover have "sorted (map (\<lambda>r. w_name (st r)) (raw_attrs st fs))"
    by (simp add: raw_attrs_def)
  ultimately show ?thesis
    unfolding raw_attrs_def[of st fs'] by (rule sort_key_inj_key_eq)
qed

lemma ex_raw_attrs: "raw_attrs ex_store ex_fieldset = [2, 0, 1, 3]"
  by (simp add: raw_attrs_def ex_store_def ex_fieldset_def mk_wrapper_def)

lemma ex_new_options: "FieldSet_new_options ex_fieldset ex_conflict_kwargs = ex_conflict_kwargs"
  by (simp add: FieldSet_new_options_def merge_options_def ex_fieldset_def ex_conflict_kwargs_def no_kwargs_def pick_def)

section \<open>Claims about the selection\<close>

text \<open>
  Claim C1. When the include list is non-empty and the keywords pass validation (the
  exclude list is then empty, and every list holds wrappers only), \<^verbatim>\<open>get_attrs\<close> returns
  the include list itself, element for element and in its order. The \<^verbatim>\<open>pk\<close> keyword is
  arbitrary, and neither the primary-key rule nor the raw-foreign-key rule is applied:
  the store and the form are arbitrary too.
\<close>

theorem get_attrs_include_precedence:
  assumes "dict_get (o_include kw) [] = map Wrapper inc" and "inc \<noteq> []"
    and "\<not> (dict_get (o_include kw) [] \<noteq> [] \<and> dict_get (o_exclude kw) [] \<noteq> [])"
    and "list_all is_wrapper (dict_get (o_exclude kw) [])"
    and "list_all is_wrapper (dict_get (o_options kw) [])"
  shows "get_attrs st fs kw = Inr inc"
proof -
  from assms(1-3) have e: "dict_get (o_exclude kw) [] = []" by simp
  from assms(5) obtain opts where "validate_columns (dict_get (o_options kw) []) = Some opts"
    using validate_columns_None[of "dict_get (o_options kw) []"] by auto
  with assms(1,2) e show ?thesis by (rule get_attrs_include_ok)
qed

theorem get_attrs_include_precedence_witness:
  "dict_get (o_include ex_include_kwargs) [] = map Wrapper [3, 0]
   \<and> dict_get (o_exclude ex_include_kwargs) [] = []
   \<and> list_all is_wrapper (dict_get (o_options ex_include_kwargs) [])
   \<and> dict_get (o_pk ex_include_kwargs) True = False
   \<and> primary_key (w_column (ex_store 0)) \<and> w_raw_foreign_key (ex_store 3)
   \<and> get_attrs ex_store ex_fieldset ex_include_kwargs = Inr [3, 0]"
proof -
  have h: "dict_get (o_include ex_include_kwargs) [] = map Wrapper [3, 0]"
    "dict_get (o_exclude ex_include_kwargs) [] = []"
    "list_all is_wrapper (dict_get (o_options ex_include_kwargs) [])"
    "dict_get (o_pk ex_include_kwargs) True = False"
    by (simp_all add: ex_include_kwargs_def no_kwargs_def dict_get_def)
  have "get_attrs ex_store ex_fieldset ex_include_kwargs = Inr [3, 0]"
    using get_attrs_include_precedence[of ex_include_kwargs "[3, 0]" ex_store ex_fieldset] h
    by simp
  then show ?thesis using h by (simp add: ex_store_def mk_wrapper_def)
qed



text \<open>
  Claim C5. When the include and the exclude list are both non-empty, \<^verbatim>\<open>get_attrs\<close>
  raises the conflicting-filter error, and so does \<^verbatim>\<open>FieldSet.render\<close> for every call
  whose merged options are these: the result is the error alone, no markup.
\<close>

theorem conflicting_filter_raises:
  assumes "dict_get (o_include kw) [] \<noteq> []" and "dict_get (o_exclude kw) [] \<noteq> []"
  shows "get_attrs st fs kw = Inl ConflictingFilter
     \<and> (\<forall>options. FieldSet_new_options fs options = kw
          \<longrightarrow> FieldSet_render c st fs options = Inl (FilterError ConflictingFilter))"
  using get_attrs_conflict[OF assms, of st fs]
  by (auto simp: FieldSet_render_def Let_def)

theorem conflicting_filter_raises_witness:
  "dict_get (o_include ex_conflict_kwargs) [] \<noteq> []
   \<and> dict_get (o_exclude ex_conflict_kwargs) [] \<noteq> []
   \<and> FieldSet_new_options ex_fieldset ex_conflict_kwargs = ex_conflict_kwargs
   \<and> get_attrs ex_store ex_fieldset ex_conflict_kwargs = Inl ConflictingFilter
   \<and> FieldSet_render ex_collab ex_store ex_fieldset ex_conflict_kwargs
       = Inl (FilterError ConflictingFilter)"
proof -
  have h1: "dict_get (o_include ex_conflict_kwargs) [] \<noteq> []"
    and h2: "dict_get (o_exclude ex_conflict_kwargs) [] \<noteq> []"
    by (simp_all add: ex_conflict_kwargs_def no_kwargs_def dict_get_def)
  show ?thesis
    using conflicting_filter_raises[OF h1 h2, of ex_store ex_fieldset ex_collab] h1 h2 ex_new_options
    by simp
qed

text \<open>
  Claim C8, as amended. When the include and the exclude list are not both non-empty
  and one of the include, exclude and options lists holds a value that is not a
  wrapper, \<^verbatim>\<open>get_attrs\<close> raises the invalid-filter-type error. The error names the first
  offending parameter in the order include, exclude, options, and carries the whole
  list passed for it.
\<close>

theorem invalid_filter_type_raises:
  assumes "\<not> (dict_get (o_include kw) [] \<noteq> [] \<and> dict_get (o_exclude kw) [] \<noteq> [])"
    and "\<not> list_all is_wrapper
        (dict_get (o_include kw) [] @ dict_get (o_exclude kw) [] @ dict_get (o_options kw) [])"
  shows "get_attrs st fs kw = Inl
     (if \<not> list_all is_wrapper (dict_get (o_include kw) [])
        then InvalidFilterType ''include'' (dict_get (o_include kw) [])
      else if \<not> list_all is_wrapper (dict_get (o_exclude kw) [])
        then InvalidFilterType ''exclude'' (dict_get (o_exclude kw) [])
      else InvalidFilterType ''options'' (dict_get (o_options kw) []))"
  using assms by (rule get_attrs_invalid)

theorem invalid_filter_type_raises_witness:
  "\<not> (dict_get (o_include ex_untyped_kwargs) [] \<noteq> [] \<and> dict_get (o_exclude ex_untyped_kwargs) [] \<noteq> [])
   \<and> \<not> list_all is_wrapper (dict_get (o_include ex_untyped_kwargs) []
         @ dict_get (o_exclude ex_untyped_kwargs) [] @ dict_get (o_options ex_untyped_kwargs) [])
   \<and> get_attrs ex_store ex_fieldset ex_untyped_kwargs
       = Inl (InvalidFilterType ''exclude'' [Wrapper 2, Other ''name''])"
proof -
  have h1: "\<not> (dict_get (o_include ex_untyped_kwargs) [] \<noteq> [] \<and> dict_get (o_exclude ex_untyped_kwargs) [] \<noteq> [])"
    and h2: "\<not> list_all is_wrapper (dict_get (o_include ex_untyped_kwargs) []
         @ dict_get (o_exclude ex_untyped_kwargs) [] @ dict_get (o_options ex_untyped_kwargs) [])"
    by (simp_all add: ex_untyped_kwargs_def no_kwargs_def dict_get_def)
  have "get_attrs ex_store ex_fieldset ex_untyped_kwargs
       = Inl (InvalidFilterType ''exclude'' [Wrapper 2, Other ''name''])"
    using invalid_filter_type_raises[OF h1 h2, of ex_store ex_fieldset]
    by (simp add: ex_untyped_kwargs_def no_kwargs_def dict_get_def)
  then show ?thesis using h1 h2 by simp
qed

text \<open>
  The claim without the first condition fails: the conflict of include and exclude is
  tested before the types are, so an include list holding a string, next to a
  non-empty exclude list, raises the conflicting-filter error.
\<close>

theorem invalid_filter_type_counterexample:
  "\<not> list_all is_wrapper (dict_get (o_include ex_untyped_conflict_kwargs) [])
   \<and> get_attrs ex_store ex_fieldset ex_untyped_conflict_kwargs = Inl ConflictingFilter"
  by (simp add: get_attrs.simps ex_untyped_conflict_kwargs_def no_kwargs_def dict_get_def)

section \<open>Facts about rendering\<close>

text \<open>\<^verbatim>\<open>Field.render\<close> is the markup above, followed by the focus step.\<close>

lemma Field_render_eq:
  assumes "f_wrapper self = Some r"
  shows "Field_render c st self options =
     (let opts = Field_new_options self options; w = st r
      in if takes_focus opts w \<and> \<not> f_focus_rendered self
         then (Inr (field_markup c opts (f_make_label self) w @ focus_tail c w),
               self\<lparr>f_focus_rendered := True\<rparr>)
         else (Inr (field_markup c opts (f_make_label self) w), self))"
proof -
  define opts where "opts = Field_new_options self options"
  define ml where "ml = dict_get (o_make_label opts) (f_make_label self)"
  define errs where "errs = dict_get (o_error opts) Map.empty (w_column (st r))"
  define docs where "docs = dict_get (o_doc opts) Map.empty (w_column (st r))"
  show ?thesis
    unfolding Field_render_def field_markup_def takes_focus_def focus_tail_def
      focus_matches_def Let_def assms opts_def[symmetric] option.case
    unfolding ml_def[symmetric] errs_def[symmetric] docs_def[symmetric]
    by (cases errs; cases docs; cases ml; simp)
qed

lemma merge_no_kwargs: "merge_options no_kwargs lo = lo"
  by (cases lo) (simp add: merge_options_def no_kwargs_def pick_def)

lemma Field_new_options_none: "Field_new_options fr no_kwargs = f_options fr"
  by (simp add: Field_new_options_def merge_no_kwargs)

lemma set_attr_fields:
  "f_wrapper (set_attr a fr) = Some a"
  "f_options (set_attr a fr) = f_options fr"
  "f_make_label (set_attr a fr) = f_make_label fr"
  "f_focus_rendered (set_attr a fr) = f_focus_rendered fr"
  by (simp_all add: set_attr_def)

text \<open>
  The loop of \<^verbatim>\<open>FieldSet.render\<close> with a renderer that has emitted the focus script,
  and with one that has not.
\<close>

lemma render_loop_done:
  assumes "f_focus_rendered fr"
  shows "fst (render_loop c st fr attrs html) =
     Inr (html @ map (\<lambda>r. field_markup c (f_options fr) (f_make_label fr) (st r)) attrs)"
  using assms
proof (induction attrs arbitrary: fr html)
  case Nil
  then show ?case by simp
next
  case (Cons a attrs)
  have w: "f_wrapper (set_attr a fr) = Some a" by (simp add: set_attr_def)
  have step: "Field_render c st (set_attr a fr) no_kwargs =
      (Inr (field_markup c (f_options fr) (f_make_label fr) (st a)), set_attr a fr)"
    using Cons.prems
    by (simp add: Field_render_eq[OF w] Field_new_options_none Let_def set_attr_fields)
  have "f_focus_rendered (set_attr a fr)" using Cons.prems by (simp add: set_attr_fields)
  from Cons.IH[OF this, unfolded set_attr_fields] show ?case
    by (simp add: step)
qed

lemma render_loop_fresh:
  assumes "\<not> f_focus_rendered fr"
  shows "fst (render_loop c st fr attrs html) =
     Inr (html
       @ map (\<lambda>r. field_markup c (f_options fr) (f_make_label fr) (st r))
           (takeWhile (\<lambda>r. \<not> takes_focus (f_options fr) (st r)) attrs)
       @ (case dropWhile (\<lambda>r. \<not> takes_focus (f_options fr) (st r)) attrs of
            [] \<Rightarrow> []
          | r # rest \<Rightarrow>
             (field_markup c (f_options fr) (f_make_label fr) (st r) @ focus_tail c (st r))
             # map (\<lambda>r. field_markup c (f_options fr) (f_make_label fr) (st r)) rest))"
  using assms
proof (induction attrs arbitrary: fr html)
  case Nil
  then show ?case by simp
next
  case (Cons a attrs)
  have w: "f_wrapper (set_attr a fr) = Some a" by (simp add: set_attr_def)
  show ?case
  proof (cases "takes_focus (f_options fr) (st a)")
    case True
    have step: "Field_render c st (set_attr a fr) no_kwargs =
      (Inr (field_markup c (f_options fr) (f_make_label fr) (st a) @ focus_tail c (st a)),
       (set_attr a fr)\<lparr>f_focus_rendered := True\<rparr>)"
      using Cons.prems True
      by (simp add: Field_render_eq[OF w] Field_new_options_none Let_def set_attr_fields)
    have "f_focus_rendered ((set_attr a fr)\<lparr>f_focus_rendered := True\<rparr>)" by simp
    from render_loop_done[OF this, of c st attrs] True show ?thesis
      by (simp add: step set_attr_fields)
  next
    case False
    have step: "Field_render c st (set_attr a fr) no_kwargs =
      (Inr (field_markup c (f_options fr) (f_make_label fr) (st a)), set_attr a fr)"
      using False
      by (simp add: Field_render_eq[OF w] Field_new_options_none Let_def set_attr_fields)
    have "\<not> f_focus_rendered (set_attr a fr)" using Cons.prems by (simp add: set_attr_fields)
    from Cons.IH[OF this, unfolded set_attr_fields] False show ?thesis
      by (simp add: step)
  qed
qed

lemmas ex_defs = ex_store_def ex_fieldset_def ex_collab_def mk_wrapper_def no_kwargs_def
  dict_get_def pick_def merge_options_def FieldSet_new_options_def Field_new_options_def
  Field_init_def reconfigure_def set_attr_def NL_def

lemma pick_None: "pick hi None = hi"
  by (cases hi) (simp_all add: pick_def)

lemma ex_new_options_any: "FieldSet_new_options ex_fieldset kw = kw"
  by (cases kw) (simp add: FieldSet_new_options_def merge_options_def ex_fieldset_def no_kwargs_def pick_None)

lemma FieldSet_render_fresh:
  assumes "get_attrs st fs (FieldSet_new_options fs kw) = Inr attrs"
  shows "FieldSet_render c st fs kw = Inr (join_lines
     (map (\<lambda>r. field_markup c (FieldSet_new_options fs kw) True (st r))
         (takeWhile (\<lambda>r. \<not> takes_focus (FieldSet_new_options fs kw) (st r)) attrs)
      @ (case dropWhile (\<lambda>r. \<not> takes_focus (FieldSet_new_options fs kw) (st r)) attrs of
           [] \<Rightarrow> []
         | r # rest \<Rightarrow>
            (field_markup c (FieldSet_new_options fs kw) True (st r) @ focus_tail c (st r))
            # map (\<lambda>r. field_markup c (FieldSet_new_options fs kw) True (st r)) rest)))"
proof -
  let ?fr = "reconfigure (FieldSet_new_options fs kw) (Field_init (fs_model fs) (fs_session fs) None True)"
  have f: "\<not> f_focus_rendered ?fr" "f_options ?fr = FieldSet_new_options fs kw" "f_make_label ?fr = True"
    by (simp_all add: reconfigure_def Field_init_def)
  show ?thesis
    unfolding FieldSet_render_def Let_def assms sum.case
    using render_loop_fresh[OF f(1), of c st attrs "[]", unfolded f(2,3)]
    by simp
qed

lemma ex_focus_name_attrs:
  "get_attrs ex_store ex_fieldset (FieldSet_new_options ex_fieldset ex_focus_name_kwargs) = Inr [2, 0, 1]"
  unfolding ex_new_options_any
  by (subst get_attrs_empty_include[of _ "[]" "[]"])
     (simp_all add: ex_raw_attrs ex_focus_name_kwargs_def no_kwargs_def dict_get_def ex_store_def mk_wrapper_def)

lemma bind_loop_eq:
  "bind_loop model attrs st = (\<lambda>r. if r \<in> set attrs then (st r)\<lparr>w_model := model\<rparr> else st r)"
proof (induction attrs arbitrary: st)
  case Nil
  then show ?case by simp
next
  case (Cons a attrs)
  show ?case unfolding bind_loop.simps Cons.IH by (rule ext) simp
qed

lemma raw_attrs_set: "set (raw_attrs st fs) = set (dict_wrappers (fs_dict fs))"
  by (simp add: raw_attrs_def)

lemma bind_eq:
  "bind st fs model session =
     ((\<lambda>r. if r \<in> set (dict_wrappers (fs_dict fs)) then (st r)\<lparr>w_model := model\<rparr> else st r),
      fs\<lparr>fs_model := model, fs_session := session\<rparr>)"
  by (simp add: bind_def Let_def bind_loop_eq raw_attrs_set)

lemma ex_nofocus_attrs:
  "get_attrs ex_store ex_fieldset (FieldSet_new_options ex_fieldset ex_nofocus_kwargs) = Inr [2, 0, 1]"
  unfolding ex_new_options_any
  by (subst get_attrs_empty_include[of _ "[]" "[]"])
     (simp_all add: ex_raw_attrs ex_nofocus_kwargs_def no_kwargs_def dict_get_def ex_store_def mk_wrapper_def)

text \<open>
  The call with its objects returns the value of \<^verbatim>\<open>FieldSet_render\<close> on the wrappers of
  the world, and adds its renderer, as the loop leaves it, to the world.
\<close>

lemma render_loop_in_eq:
  assumes "a < length (renderers wd)"
  shows "render_loop_in c a attrs html wd =
     (fst (render_loop c (wrappers wd) (renderers wd ! a) attrs html),
      wd\<lparr>renderers := (renderers wd)
            [a := snd (render_loop c (wrappers wd) (renderers wd ! a) attrs html)]\<rparr>)"
  using assms
proof (induction attrs arbitrary: wd html)
  case Nil
  then show ?case by simp
next
  case (Cons attr attrs)
  obtain res fr where fr: "Field_render c (wrappers wd) (set_attr attr (renderers wd ! a)) no_kwargs = (res, fr)"
    by (cases "Field_render c (wrappers wd) (set_attr attr (renderers wd ! a)) no_kwargs")
  show ?case
  proof (cases res)
    case (Inl e)
    then show ?thesis using fr Cons.prems by simp
  next
    case (Inr fld)
    let ?wd2 = "wd\<lparr>renderers := (renderers wd)[a := fr]\<rparr>"
    have len: "a < length (renderers ?wd2)" using Cons.prems by simp
    show ?thesis
      using fr Inr Cons.prems Cons.IH[OF len, of "html @ [fld]"]
      by simp
  qed
qed

lemma FieldSet_render_in_eq:
  "FieldSet_render_in c fs kw wd =
     (FieldSet_render c (wrappers wd) fs kw,
      (case get_attrs (wrappers wd) fs (FieldSet_new_options fs kw) of
         Inl e \<Rightarrow> wd
       | Inr attrs \<Rightarrow> wd\<lparr>renderers := renderers wd
           @ [snd (render_loop c (wrappers wd)
                 (reconfigure (FieldSet_new_options fs kw)
                    (Field_init (fs_model fs) (fs_session fs) None True)) attrs [])]\<rparr>))"
proof (cases "get_attrs (wrappers wd) fs (FieldSet_new_options fs kw)")
  case (Inl e)
  then show ?thesis by (simp add: FieldSet_render_in_def FieldSet_render_def Let_def)
next
  case (Inr attrs)
  let ?f = "reconfigure (FieldSet_new_options fs kw) (Field_init (fs_model fs) (fs_session fs) None True)"
  let ?wd2 = "wd\<lparr>renderers := renderers wd @ [?f]\<rparr>"
  have len: "length (renderers wd) < length (renderers ?wd2)" by simp
  have nth: "renderers ?wd2 ! length (renderers wd) = ?f" by simp
  show ?thesis
    using render_loop_in_eq[OF len, of c attrs "[]"]
    by (simp add: FieldSet_render_in_def FieldSet_render_def Let_def Inr new_Field_def
        split: sum.splits prod.splits)
qed

section \<open>Claims about rendering\<close>

text \<open>
  Claim C3 does not hold of the code. At most one field gets the focus script, but
  which one does not depend on the focus option: the comparison of line 237 yields a
  clause, which is true, so the script goes to the first selected field that is not
  hidden. With the selection bio, id, name and the focus option set to the column of
  \<open>name\<close>, the script follows bio, not name; with the focus option false, where no
  field meets the criterion, the script follows bio as well.
\<close>

theorem focus_option_ignored:
  "FieldSet_render ex_collab ex_store ex_fieldset ex_focus_name_kwargs = Inr (
        ''<div>'' @ NL @ ''<label class=field_opt>bio</label>'' @ NL @ ''<input name=bio>'' @ NL @ ''</div>''
        @ NL @ ''<script>'' @ focus_script ''bio'' @ ''</script>''
        @ NL @ ''<div>'' @ NL @ ''<label class=field_req>id</label>'' @ NL @ ''<input name=id>'' @ NL @ ''</div>''
        @ NL @ ''<div>'' @ NL @ ''<label class=field_req>name</label>'' @ NL @ ''<input name=name>'' @ NL @ ''</div>'')
   \<and> FieldSet_render ex_collab ex_store ex_fieldset ex_nofocus_kwargs = Inr (
        ''<div>'' @ NL @ ''<label class=field_opt>bio</label>'' @ NL @ ''<input name=bio>'' @ NL @ ''</div>''
        @ NL @ ''<script>'' @ focus_script ''bio'' @ ''</script>''
        @ NL @ ''<div>'' @ NL @ ''<label class=field_req>id</label>'' @ NL @ ''<input name=id>'' @ NL @ ''</div>''
        @ NL @ ''<div>'' @ NL @ ''<label class=field_req>name</label>'' @ NL @ ''<input name=name>'' @ NL @ ''</div>'')"
proof -
  note a = FieldSet_render_fresh[OF ex_focus_name_attrs, of ex_collab, unfolded ex_new_options_any]
  note b = FieldSet_render_fresh[OF ex_nofocus_attrs, of ex_collab, unfolded ex_new_options_any]
  show ?thesis
    unfolding a b
    by (simp add: field_markup_def takes_focus_def focus_tail_def focus_matches_def
        Column_eq_def ex_focus_name_kwargs_def ex_nofocus_kwargs_def ex_store_def
        ex_collab_def mk_wrapper_def no_kwargs_def dict_get_def NL_def)
qed

text \<open>
  Claim C4. For a hidden wrapper \<^verbatim>\<open>Field.render\<close> returns the input fragment of the
  wrapper and nothing else, whatever the options, and leaves the renderer as it was:
  the focus flag is not set, so no focus script was produced.
\<close>

theorem Field_render_hidden:
  assumes "f_wrapper self = Some r" and "w_render_as (st r) = HiddenField"
  shows "Field_render c st self options = (Inr (wrapper_render c (st r)), self)"
  using assms by (simp add: Field_render_def Let_def)

theorem Field_render_hidden_witness:
  "f_wrapper ex_hidden_field = Some 4 \<and> w_render_as (ex_store 4) = HiddenField
   \<and> dict_get (o_make_label (Field_new_options ex_hidden_field no_kwargs)) (f_make_label ex_hidden_field)
   \<and> dict_get (o_error (Field_new_options ex_hidden_field no_kwargs)) Map.empty (w_column (ex_store 4)) = Some ''bad token''
   \<and> dict_get (o_doc (Field_new_options ex_hidden_field no_kwargs)) Map.empty (w_column (ex_store 4)) = Some ''internal''
   \<and> focus_matches (dict_get (o_focus (Field_new_options ex_hidden_field no_kwargs)) FocusTrue) (ex_store 4)
   \<and> \<not> f_focus_rendered ex_hidden_field
   \<and> Field_render ex_collab ex_store ex_hidden_field no_kwargs = (Inr ''<input name=token>'', ex_hidden_field)"
proof -
  have h: "f_wrapper ex_hidden_field = Some 4" "w_render_as (ex_store 4) = HiddenField"
    by (simp_all add: ex_hidden_field_def set_attr_def ex_store_def mk_wrapper_def)
  have "Field_render ex_collab ex_store ex_hidden_field no_kwargs = (Inr ''<input name=token>'', ex_hidden_field)"
    using Field_render_hidden[where self = ex_hidden_field and r = 4 and st = ex_store
        and c = ex_collab and options = no_kwargs] h
    by (simp add: ex_collab_def ex_store_def mk_wrapper_def)
  then show ?thesis using h
    by (simp add: ex_hidden_field_def ex_spans_kwargs_def focus_matches_def Column_eq_def ex_defs)
qed

text \<open>
  Claim C9. For a wrapper that is not hidden the markup is, in this order, the label
  (when labels are made), the input fragment, the error span and the doc span. The
  error span is present iff the column of the wrapper is a key of the error map, and
  holds the mapped message under the error class; the doc span is present iff the
  column is a key of the doc map, and holds the mapped text under the doc class.
\<close>

theorem Field_render_spans:
  assumes "f_wrapper self = Some r" and "w_render_as (st r) \<noteq> HiddenField"
  shows "fst (Field_render c st self options) = Inr
     (let opts = Field_new_options self options;
          w = st r;
          label = (if dict_get (o_make_label opts) (f_make_label self)
             then label_render c (w_column w)
                    (dict_get (dict_get (o_alias opts) Map.empty (w_name w)) (w_name w))
                    (o_prettify opts)
                    (if w_nullable w then dict_get (o_cls_opt opts) ''field_opt''
                     else dict_get (o_cls_req opts) ''field_req'')
             else []);
          input = wrapper_render c w;
          error_span = (case dict_get (o_error opts) Map.empty (w_column w) of
               None \<Rightarrow> []
             | Some msg \<Rightarrow>
                 NL @ content_tag c ''span'' msg (dict_get (o_span_err opts) ''span_err''));
          doc_span = (case dict_get (o_doc opts) Map.empty (w_column w) of
               None \<Rightarrow> []
             | Some txt \<Rightarrow>
                 NL @ content_tag c ''span'' txt (dict_get (o_span_doc opts) ''span_doc''));
          body = strip_leading_newline (label @ NL @ input @ error_span @ doc_span);
          wrapped = (if f_make_label self then wrap c ''<div>'' body ''</div>'' else body)
      in if focus_matches (dict_get (o_focus opts) FocusTrue) w \<and> \<not> f_focus_rendered self
         then wrapped @ NL @ javascript_tag c (focus_script (w_name w))
         else wrapped)"
  using assms
  by (simp add: Field_render_eq[OF assms(1)] field_markup_def takes_focus_def focus_tail_def Let_def)

theorem Field_render_spans_witness:
  "f_wrapper (reconfigure ex_spans_kwargs ex_name_field) = Some 1
   \<and> w_render_as (ex_store 1) \<noteq> HiddenField
   \<and> fst (Field_render ex_collab ex_store (reconfigure ex_spans_kwargs ex_name_field) no_kwargs) = Inr
       (''<div>'' @ NL @ ''<label class=field_req>name</label>'' @ NL @ ''<input name=name>''
        @ NL @ ''<span class=span_err>required</span>'' @ NL @ ''</div>''
        @ NL @ ''<script>'' @ focus_script ''name'' @ ''</script>'')"
proof -
  have h: "f_wrapper (reconfigure ex_spans_kwargs ex_name_field) = Some 1"
    "w_render_as (ex_store 1) \<noteq> HiddenField"
    by (simp_all add: ex_name_field_def reconfigure_def set_attr_def ex_store_def mk_wrapper_def)
  show ?thesis
    using Field_render_spans[where self = "reconfigure ex_spans_kwargs ex_name_field"
        and r = 1 and st = ex_store and c = ex_collab and options = no_kwargs] h
    by (simp add: ex_name_field_def ex_spans_kwargs_def focus_matches_def Column_eq_def ex_defs)
qed

text \<open>
  Claim C6 does not hold of the code. The label is made iff the effective
  \<^verbatim>\<open>make_label\<close> option is true, but the div is added iff the instance flag is true
  (\<^verbatim>\<open>self.get_make_label()\<close>, line 233), whatever the call-time option. With the
  instance flag true and the call-time option false, the label is omitted and the
  input is still wrapped; with the instance flag false and the call-time option true,
  the label is made and nothing is wrapped. (The focus script follows in both: see
  claim C3.)
\<close>

theorem make_label_override_ignored_by_wrap:
  "fst (Field_render ex_collab ex_store ex_name_field ex_nolabel_kwargs)
     = Inr (''<div>'' @ NL @ ''<input name=name>'' @ NL @ ''</div>''
            @ NL @ ''<script>'' @ focus_script ''name'' @ ''</script>'')
   \<and> fst (Field_render ex_collab ex_store ex_unlabelled_name_field ex_label_kwargs)
     = Inr (''<label class=field_req>name</label>'' @ NL @ ''<input name=name>''
            @ NL @ ''<script>'' @ focus_script ''name'' @ ''</script>'')"
  by (simp add: Field_render_def Let_def ex_name_field_def ex_unlabelled_name_field_def
      ex_nolabel_kwargs_def ex_label_kwargs_def Column_eq_def ex_defs)

text \<open>
  Claim C7 does not hold of the code. \<^verbatim>\<open>bind\<close> assigns the new model to every wrapper
  of the form and keeps every other field of it, but the session of a wrapper is among
  the fields it keeps: after binding model 7 and session 9, the wrapper \<open>name\<close> holds
  model 7 and its old session 5, while the form holds session 9.
\<close>

theorem bind_leaves_wrapper_session:
  "w_model (fst (bind ex_store ex_fieldset 7 (Some 9)) 1) = 7
   \<and> w_session (fst (bind ex_store ex_fieldset 7 (Some 9)) 1) = Some 5
   \<and> fs_session (snd (bind ex_store ex_fieldset 7 (Some 9))) = Some 9"
  by (simp add: bind_eq ex_store_def ex_fieldset_def mk_wrapper_def)

text \<open>
  Claim C10. A second call of \<^verbatim>\<open>FieldSet.render\<close> with the same keywords, run in the
  world the first call leaves, returns what the first returned. The renderer of the
  first call is still in that world, with its focus flag set when it emitted the
  script, but the second call creates a renderer of its own, whose flag starts false:
  its markup carries the script again, on the first selected wrapper that takes it.
\<close>

theorem render_again_identical:
  "fst (FieldSet_render_in c fs kw (snd (FieldSet_render_in c fs kw wd)))
     = fst (FieldSet_render_in c fs kw wd)
   \<and> fst (FieldSet_render_in c fs kw (snd (FieldSet_render_in c fs kw wd))) =
       (case get_attrs (wrappers wd) fs (FieldSet_new_options fs kw) of
          Inl e \<Rightarrow> Inl (FilterError e)
        | Inr attrs \<Rightarrow> Inr (join_lines
           (map (\<lambda>r. field_markup c (FieldSet_new_options fs kw) True (wrappers wd r))
               (takeWhile (\<lambda>r. \<not> takes_focus (FieldSet_new_options fs kw) (wrappers wd r)) attrs)
            @ (case dropWhile (\<lambda>r. \<not> takes_focus (FieldSet_new_options fs kw) (wrappers wd r)) attrs of
                 [] \<Rightarrow> []
               | r # rest \<Rightarrow>
                  (field_markup c (FieldSet_new_options fs kw) True (wrappers wd r)
                     @ focus_tail c (wrappers wd r))
                  # map (\<lambda>r. field_markup c (FieldSet_new_options fs kw) True (wrappers wd r)) rest))))"
proof -
  have same: "wrappers (snd (FieldSet_render_in c fs kw wd)) = wrappers wd"
    by (simp add: FieldSet_render_in_eq split: sum.splits)
  have again: "fst (FieldSet_render_in c fs kw (snd (FieldSet_render_in c fs kw wd)))
      = FieldSet_render c (wrappers wd) fs kw"
    by (simp add: FieldSet_render_in_eq[of c fs kw "snd (FieldSet_render_in c fs kw wd)"] same)
  show ?thesis
  proof (cases "get_attrs (wrappers wd) fs (FieldSet_new_options fs kw)")
    case (Inl e)
    then show ?thesis
      unfolding again by (simp add: FieldSet_render_in_eq FieldSet_render_def Let_def)
  next
    case (Inr attrs)
    show ?thesis
      unfolding again FieldSet_render_fresh[OF Inr]
      by (simp add: FieldSet_render_in_eq FieldSet_render_fresh[OF Inr] Inr)
  qed
qed

theorem render_again_identical_witness:
  "f_focus_rendered (renderers (snd (FieldSet_render_in ex_collab ex_fieldset ex_focus_name_kwargs ex_world)) ! 0)
   \<and> fst (FieldSet_render_in ex_collab ex_fieldset ex_focus_name_kwargs ex_world) =
       fst (FieldSet_render_in ex_collab ex_fieldset ex_focus_name_kwargs
             (snd (FieldSet_render_in ex_collab ex_fieldset ex_focus_name_kwargs ex_world)))
   \<and> fst (FieldSet_render_in ex_collab ex_fieldset ex_focus_name_kwargs
             (snd (FieldSet_render_in ex_collab ex_fieldset ex_focus_name_kwargs ex_world))) =
      Inr (''<div>'' @ NL @ ''<label class=field_opt>bio</label>'' @ NL @ ''<input name=bio>'' @ NL @ ''</div>''
        @ NL @ ''<script>'' @ focus_script ''bio'' @ ''</script>''
        @ NL @ ''<div>'' @ NL @ ''<label class=field_req>id</label>'' @ NL @ ''<input name=id>'' @ NL @ ''</div>''
        @ NL @ ''<div>'' @ NL @ ''<label class=field_req>name</label>'' @ NL @ ''<input name=name>'' @ NL @ ''</div>'')"
proof -
  have w: "wrappers ex_world = ex_store" by (simp add: ex_world_def)
  note t = render_again_identical[of ex_collab ex_fieldset ex_focus_name_kwargs ex_world,
      unfolded w ex_new_options_any ex_focus_name_attrs[unfolded ex_new_options_any] sum.case]
  have flag: "f_focus_rendered
      (renderers (snd (FieldSet_render_in ex_collab ex_fieldset ex_focus_name_kwargs ex_world)) ! 0)"
    unfolding FieldSet_render_in_eq w ex_new_options_any
      ex_focus_name_attrs[unfolded ex_new_options_any]
    by (simp add: ex_world_def Field_render_def Let_def Column_eq_def ex_focus_name_kwargs_def
        ex_defs)
  have out: "fst (FieldSet_render_in ex_collab ex_fieldset ex_focus_name_kwargs
             (snd (FieldSet_render_in ex_collab ex_fieldset ex_focus_name_kwargs ex_world))) =
      Inr (''<div>'' @ NL @ ''<label class=field_opt>bio</label>'' @ NL @ ''<input name=bio>'' @ NL @ ''</div>''
        @ NL @ ''<script>'' @ focus_script ''bio'' @ ''</script>''
        @ NL @ ''<div>'' @ NL @ ''<label class=field_req>id</label>'' @ NL @ ''<input name=id>'' @ NL @ ''</div>''
        @ NL @ ''<div>'' @ NL @ ''<label class=field_req>name</label>'' @ NL @ ''<input name=name>'' @ NL @ ''</div>'')"
    unfolding conjunct2[OF t]
    by (simp add: field_markup_def takes_focus_def focus_tail_def focus_matches_def
        Column_eq_def ex_focus_name_kwargs_def ex_store_def ex_collab_def mk_wrapper_def
        no_kwargs_def dict_get_def NL_def)
  show ?thesis using flag out conjunct1[OF t] by simp
qed

end
